theory Spec2Isabelle
  imports Complex_Main "HOL-Library.AList"
begin

section \<open>Shared data model\<close>

text \<open>
  Python exceptions are values.  Only the exception classes that the modelled functions raise
  themselves, or that the libraries they call are documented to raise, are listed.
  \<open>MalformedCheckpointError\<close> is the error named by the connector contract; no modelled
  function constructs it.
\<close>

datatype py_error =
    ValueError string
  | RuntimeError string
  | IndexError
  | KeyError string
  | TypeError
  | HTTPStatusError
  | ValidationError
  | SlackApiError
  | MalformedCheckpointError

text \<open>\<open>onyx.access.models.ExternalAccess\<close>: the three fields every call site sets.\<close>

record ExternalAccess =
  external_user_emails :: "string set"
  external_user_group_ids :: "string set"
  is_public :: bool

section \<open>\<open>onyx/db/models.py\<close>: batch coordination of an index attempt\<close>

text \<open>
  The two coordination columns read by \<open>is_coordination_complete\<close>:
  \<open>total_batches\<close> is nullable, \<open>completed_batches\<close> is an integer defaulting to 0.
\<close>

record IndexAttempt =
  total_batches :: "int option"
  completed_batches :: int

text \<open>
  \<^verbatim>\<open>return self.total_batches is not None and self.completed_batches >= self.total_batches\<close>
  The comparison is only evaluated when the left conjunct holds.
\<close>

definition is_coordination_complete :: "IndexAttempt \<Rightarrow> bool" where
  "is_coordination_complete self =
     (case total_batches self of
        None \<Rightarrow> False
      | Some n \<Rightarrow> completed_batches self \<ge> n)"

section \<open>\<open>onyx/connectors/mock_connector/connector.py\<close>\<close>

text \<open>
  \<open>ConnectorCheckpoint\<close> carries \<open>has_more\<close>; \<open>MockConnectorCheckpoint\<close> adds the
  optional cursor \<open>last_document_id\<close>.
\<close>

record MockConnectorCheckpoint =
  has_more :: bool
  last_document_id :: "string option"

text \<open>
  \<open>onyx.connectors.models.Document\<close> and \<open>ConnectorFailure\<close> are declared outside the
  modelled files.  Of a document the connector reads and writes only \<open>external_access\<close>;
  the identifier stands for the remaining payload.  A failure is passed through untouched.
\<close>

record Document =
  document_id :: string
  external_access :: "ExternalAccess option"

record ConnectorFailure =
  failure_message :: string

record SingleConnectorYield =
  documents :: "Document list"
  checkpoint :: MockConnectorCheckpoint
  failures :: "ConnectorFailure list"
  unhandled_exception :: "string option"

definition EXTERNAL_USER_EMAILS :: "string set" where
  "EXTERNAL_USER_EMAILS = {''test@example.com'', ''admin@example.com''}"

definition EXTERNAL_USER_GROUP_IDS :: "string set" where
  "EXTERNAL_USER_GROUP_IDS = {''mock-group-1'', ''mock-group-2''}"

text \<open>
  The mutable attributes of a \<open>MockConnector\<close>.  \<open>connector_yields\<close> is \<open>None\<close> until
  \<open>load_credentials\<close> has run; \<open>current_yield_index\<close> starts at 0 and only grows.
\<close>

record MockConnector =
  connector_yields :: "SingleConnectorYield list option"
  current_yield_index :: nat

text \<open>
  The mock server is reached over HTTP.  Its answer to \<open>POST /add-checkpoint\<close> is a
  parameter: \<open>None\<close> when \<open>client.post\<close> returns and \<open>raise_for_status\<close> accepts the
  response, otherwise the exception that one of the two raises.
\<close>

record MockServer =
  add_checkpoint :: "MockConnectorCheckpoint \<Rightarrow> py_error option"

text \<open>
  \<open>CheckpointOutput\<close> is a generator: it yields documents and failures and finally returns a
  checkpoint.  A call is modelled by everything a consumer that drains the generator
  observes, in order: the events, then the outcome (the returned checkpoint or the exception
  that ended the generator), together with the connector's attributes afterwards.
\<close>

datatype connector_output = Doc Document | Failure ConnectorFailure

datatype event =
    CheckpointSaved MockConnectorCheckpoint
  | Yield connector_output

fun yielded :: "event list \<Rightarrow> connector_output list" where
  "yielded [] = []"
| "yielded (CheckpointSaved c # evs) = yielded evs"
| "yielded (Yield x # evs) = x # yielded evs"

text \<open>Truth value of a \<open>str | None\<close>: \<open>None\<close> and the empty string are false.\<close>

fun truthy :: "string option \<Rightarrow> bool" where
  "truthy None = False"
| "truthy (Some s) = (s \<noteq> [])"

text \<open>\<open>_save_checkpoint\<close>: one POST; the exception of a failed request propagates.\<close>

definition save_checkpoint :: "MockServer \<Rightarrow> MockConnectorCheckpoint \<Rightarrow> py_error + event list" where
  "save_checkpoint server checkpoint' =
     (case add_checkpoint server checkpoint' of
        Some e \<Rightarrow> Inl e
      | None \<Rightarrow> Inr [CheckpointSaved checkpoint'])"

text \<open>
  The body of the loop over \<open>current_yield.documents\<close>: a document without access gets the
  mock access when permissions are requested.  The assignment mutates the document object
  held in \<open>connector_yields\<close>, and the same object is yielded.
\<close>

definition add_mock_permissions :: "bool \<Rightarrow> Document \<Rightarrow> Document" where
  "add_mock_permissions include_permissions document =
     (if include_permissions \<and> external_access document = None
      then document\<lparr>external_access :=
             Some \<lparr>external_user_emails = EXTERNAL_USER_EMAILS,
                   external_user_group_ids = EXTERNAL_USER_GROUP_IDS,
                   is_public = False\<rparr>\<rparr>
      else document)"

text \<open>
  \<open>_load_from_checkpoint_common\<close>.  Every raise of the source precedes the first yield:
  the missing configuration, a failed save, the list index out of range (after the index
  has been advanced) and the simulated unhandled exception.
\<close>

definition load_from_checkpoint_common ::
  "MockServer \<Rightarrow> MockConnector \<Rightarrow> real \<Rightarrow> real \<Rightarrow> MockConnectorCheckpoint \<Rightarrow> bool
     \<Rightarrow> MockConnector \<times> event list \<times> (py_error + MockConnectorCheckpoint)" where
  "load_from_checkpoint_common server self start end' checkpoint' include_permissions =
     (case connector_yields self of
        None \<Rightarrow> (self, [], Inl (ValueError ''No connector yields configured''))
      | Some yields \<Rightarrow>
          (case save_checkpoint server checkpoint' of
             Inl e \<Rightarrow> (self, [], Inl e)
           | Inr saved \<Rightarrow>
               let yield_index = current_yield_index self;
                   self1 = self\<lparr>current_yield_index := current_yield_index self + 1\<rparr>
               in if yield_index \<ge> length yields then (self1, saved, Inl IndexError)
                  else
                    let current_yield = yields ! yield_index
                    in if truthy (unhandled_exception current_yield)
                       then (self1, saved,
                             Inl (RuntimeError (the (unhandled_exception current_yield))))
                       else
                         let docs = map (add_mock_permissions include_permissions)
                                        (documents current_yield);
                             self2 = self1\<lparr>connector_yields :=
                                       Some (yields[yield_index :=
                                               current_yield\<lparr>documents := docs\<rparr>])\<rparr>
                         in (self2,
                             saved @ map (Yield \<circ> Doc) docs
                                   @ map (Yield \<circ> Failure) (failures current_yield),
                             Inr (checkpoint current_yield))))"

definition load_from_checkpoint ::
  "MockServer \<Rightarrow> MockConnector \<Rightarrow> real \<Rightarrow> real \<Rightarrow> MockConnectorCheckpoint
     \<Rightarrow> MockConnector \<times> event list \<times> (py_error + MockConnectorCheckpoint)" where
  "load_from_checkpoint server self start end' checkpoint' =
     load_from_checkpoint_common server self start end' checkpoint' False"

definition load_from_checkpoint_with_perm_sync ::
  "MockServer \<Rightarrow> MockConnector \<Rightarrow> real \<Rightarrow> real \<Rightarrow> MockConnectorCheckpoint
     \<Rightarrow> MockConnector \<times> event list \<times> (py_error + MockConnectorCheckpoint)" where
  "load_from_checkpoint_with_perm_sync server self start end' checkpoint' =
     load_from_checkpoint_common server self start end' checkpoint' True"

definition build_dummy_checkpoint :: MockConnectorCheckpoint where
  "build_dummy_checkpoint = \<lparr>has_more = True, last_document_id = None\<rparr>"

text \<open>
  \<open>validate_checkpoint_json\<close> hands the blob to pydantic's \<open>model_validate_json\<close> and
  returns what it returns; there is no \<open>try\<close> around the call.  The decoder of the library
  is a parameter (\<open>None\<close> for a blob that is not a valid \<open>MockConnectorCheckpoint\<close>), and
  the library reports such a blob with its own \<open>ValidationError\<close>.
\<close>

definition model_validate_json :: "(string \<Rightarrow> 'a option) \<Rightarrow> string \<Rightarrow> py_error + 'a" where
  "model_validate_json decode json_data =
     (case decode json_data of
        None \<Rightarrow> Inl ValidationError
      | Some model \<Rightarrow> Inr model)"

definition validate_checkpoint_json ::
  "(string \<Rightarrow> MockConnectorCheckpoint option) \<Rightarrow> string \<Rightarrow> py_error + MockConnectorCheckpoint" where
  "validate_checkpoint_json decode checkpoint_json = model_validate_json decode checkpoint_json"

section \<open>The Slack Web API as seen by the modelled code\<close>

text \<open>
  \<open>slack_sdk.WebClient\<close> and the helpers \<open>get_channels\<close> and
  \<open>fetch_user_id_to_email_map\<close> live outside the modelled files.  What they answer is a
  parameter of every function below; an answer is either the exception raised or the
  response.  Of a response only the keys that the modelled code reads are kept; a key that
  is absent, or present with the JSON value \<open>null\<close>, is \<open>None\<close>.
\<close>

record SlackProfile =
  profile_display_name :: "string option"
  profile_first_name :: "string option"
  profile_last_name :: "string option"
  profile_email :: "string option"

record SlackUser =
  user_real_name :: "string option"
  user_profile :: "SlackProfile option"

record UsersInfoResponse =
  response_ok :: bool
  response_user :: "SlackUser option"

record MembersResponse =
  members_ok :: bool
  members :: "string list option"
  next_cursor :: "string option"

text \<open>A channel is a dictionary; the code reads its key \<open>id\<close> only.\<close>

type_synonym ChannelType = "(string \<times> string) list"

record WebClient =
  users_info :: "string \<Rightarrow> py_error + UsersInfoResponse"
  conversations_members :: "string \<Rightarrow> string option \<Rightarrow> py_error + MembersResponse"
  get_channels :: "bool \<Rightarrow> bool \<Rightarrow> py_error + ChannelType list"
  fetch_user_id_to_email_map :: "py_error + (string \<times> string) list"

text \<open>The requests issued through the client, in the order they are made.\<close>

datatype api_call =
    FetchUserIdToEmailMap
  | GetChannels bool bool
  | ConversationsMembers string "string option"
  | UsersInfo string

section \<open>\<open>onyx/connectors/slack/utils.py\<close>\<close>

text \<open>
  \<open>SlackResponse.validate\<close> returns the response when it is ok and raises
  \<open>SlackApiError\<close> otherwise.
\<close>

definition validate :: "MembersResponse \<Rightarrow> py_error + MembersResponse" where
  "validate response = (if members_ok response then Inr response else Inl SlackApiError)"

text \<open>
  \<open>_make_slack_api_call_paginated\<close>: the loop \<open>while has_more\<close> calls the API with the
  current cursor (first \<open>None\<close>), yields the validated page and continues with
  \<open>next_cursor\<close> as long as that is a non-empty string.  \<open>call\<close> is the wrapped API method
  with its keyword arguments applied; it also records the request.  The pages are collected
  in the order they are yielded.  An API that always hands out another cursor keeps the loop
  running forever: then the result is \<open>None\<close>.
\<close>

partial_function (option) paginated_call ::
  "(string option \<Rightarrow> api_call list \<Rightarrow> (py_error + MembersResponse) \<times> api_call list)
     \<Rightarrow> string option \<Rightarrow> MembersResponse list \<Rightarrow> api_call list
     \<Rightarrow> ((py_error + MembersResponse list) \<times> api_call list) option" where
  "paginated_call call cursor pages calls =
     (case call cursor calls of
        (Inl e, calls1) \<Rightarrow> Some (Inl e, calls1)
      | (Inr response, calls1) \<Rightarrow>
          (case validate response of
             Inl e \<Rightarrow> Some (Inl e, calls1)
           | Inr page \<Rightarrow>
               if truthy (next_cursor response)
               then paginated_call call (next_cursor response) (pages @ [page]) calls1
               else Some (Inr (pages @ [page]), calls1)))"

declare paginated_call.simps [code]

definition make_paginated_slack_api_call ::
  "(string option \<Rightarrow> api_call list \<Rightarrow> (py_error + MembersResponse) \<times> api_call list)
     \<Rightarrow> api_call list \<Rightarrow> ((py_error + MembersResponse list) \<times> api_call list) option" where
  "make_paginated_slack_api_call call calls = paginated_call call None [] calls"

text \<open>
  \<open>onyx.connectors.models.BasicExpertInfo\<close>, with the four fields the function fills.
\<close>

record BasicExpertInfo =
  display_name :: "string option"
  first_name :: "string option"
  last_name :: "string option"
  email :: "string option"



section \<open>\<open>ee/onyx/external_permissions/slack/doc_sync.py\<close>\<close>

text \<open>
  \<open>user_id_to_email_map\<close> is a dictionary that \<open>_fetch_channel_permissions\<close> mutates in
  place; it is threaded through together with the requests made so far.  Dictionaries are
  association lists in insertion order: \<open>map_of\<close> reads a key and \<open>AList.update\<close> writes
  one, replacing the value of a key that is present and appending a new key at the end.
\<close>

record SyncState =
  user_id_to_email_map :: "(string \<times> string) list"
  api_calls :: "api_call list"

definition fetch_workspace_permissions :: "(string \<times> string) list \<Rightarrow> ExternalAccess" where
  "fetch_workspace_permissions id_to_email =
     \<lparr>external_user_emails = set (map snd id_to_email),
      external_user_group_ids = {},
      is_public = False\<rparr>"

text \<open>\<^verbatim>\<open>[channel["id"] for channel in channels if "id" in channel]\<close>\<close>

definition channel_ids :: "ChannelType list \<Rightarrow> string list" where
  "channel_ids channels =
     map (\<lambda>channel. the (map_of channel ''id''))
         (filter (\<lambda>channel. map_of channel ''id'' \<noteq> None) channels)"

definition get_channels_call ::
  "WebClient \<Rightarrow> bool \<Rightarrow> bool \<Rightarrow> SyncState \<Rightarrow> (py_error + ChannelType list) \<times> SyncState" where
  "get_channels_call client get_public get_private s =
     (get_channels client get_public get_private,
      s\<lparr>api_calls := api_calls s @ [GetChannels get_public get_private]\<rparr>)"

definition conversations_members_call ::
  "WebClient \<Rightarrow> string \<Rightarrow> string option \<Rightarrow> api_call list
     \<Rightarrow> (py_error + MembersResponse) \<times> api_call list" where
  "conversations_members_call client channel cursor calls =
     (conversations_members client channel cursor,
      calls @ [ConversationsMembers channel cursor])"

text \<open>
  The fallback lookup of lines 83 and 84:
  \<^verbatim>\<open>member_info = slack_client.users_info(user=member_id)\<close> and
  \<^verbatim>\<open>member_email = member_info["user"]["profile"].get("email")\<close>.
  \<open>member_info["user"]\<close> is \<open>None\<close> for a missing key, and subscripting \<open>None\<close> is a
  \<open>TypeError\<close>; a user without \<open>profile\<close> is a \<open>KeyError\<close>.
\<close>

definition users_info_email :: "WebClient \<Rightarrow> string \<Rightarrow> py_error + string option" where
  "users_info_email slack_client member_id =
     (case users_info slack_client member_id of
        Inl e \<Rightarrow> Inl e
      | Inr member_info \<Rightarrow>
          (case response_user member_info of
             None \<Rightarrow> Inl TypeError
           | Some user \<Rightarrow>
               (case user_profile user of
                  None \<Rightarrow> Inl (KeyError ''profile'')
                | Some profile \<Rightarrow> Inr (profile_email profile))))"

text \<open>
  The body of \<open>for member_id in member_ids\<close> up to \<open>member_emails.add\<close>: the email to add,
  or \<open>None\<close> where the source says \<open>continue\<close>.  The request is recorded when it is made,
  whatever its outcome.
\<close>

definition member_email_step ::
  "WebClient \<Rightarrow> string \<Rightarrow> SyncState \<Rightarrow> (py_error + string option) \<times> SyncState" where
  "member_email_step slack_client member_id s =
     (let member_email = map_of (user_id_to_email_map s) member_id
      in if truthy member_email then (Inr member_email, s)
         else
           let s1 = s\<lparr>api_calls := api_calls s @ [UsersInfo member_id]\<rparr>
           in (case users_info_email slack_client member_id of
                 Inl e \<Rightarrow> (Inl e, s1)
               | Inr member_email \<Rightarrow>
                   if \<not> truthy member_email then (Inr None, s1)
                   else
                     (Inr member_email,
                      s1\<lparr>user_id_to_email_map :=
                           AList.update member_id (the member_email)
                             (user_id_to_email_map s1)\<rparr>)))"

fun member_emails_loop ::
  "WebClient \<Rightarrow> string list \<Rightarrow> string set \<Rightarrow> SyncState \<Rightarrow> (py_error + string set) \<times> SyncState" where
  "member_emails_loop slack_client [] member_emails s = (Inr member_emails, s)"
| "member_emails_loop slack_client (member_id # rest) member_emails s =
     (case member_email_step slack_client member_id s of
        (Inl e, s1) \<Rightarrow> (Inl e, s1)
      | (Inr None, s1) \<Rightarrow> member_emails_loop slack_client rest member_emails s1
      | (Inr (Some member_email), s1) \<Rightarrow>
          member_emails_loop slack_client rest (insert member_email member_emails) s1)"

text \<open>\<^verbatim>\<open>member_ids.extend(result.get("members", []))\<close> over all pages.\<close>

definition member_ids_of_pages :: "MembersResponse list \<Rightarrow> string list" where
  "member_ids_of_pages pages =
     concat (map (\<lambda>result. case members result of None \<Rightarrow> [] | Some ids \<Rightarrow> ids) pages)"

text \<open>The loop over \<open>private_channel_ids\<close>.\<close>

fun private_channels_loop ::
  "WebClient \<Rightarrow> string list \<Rightarrow> (string \<times> ExternalAccess) list \<Rightarrow> SyncState
     \<Rightarrow> ((py_error + (string \<times> ExternalAccess) list) \<times> SyncState) option" where
  "private_channels_loop slack_client [] channel_permissions s =
     Some (Inr channel_permissions, s)"
| "private_channels_loop slack_client (channel_id # rest) channel_permissions s =
     (case make_paginated_slack_api_call
             (conversations_members_call slack_client channel_id) (api_calls s) of
        None \<Rightarrow> None
      | Some (Inl e, calls1) \<Rightarrow> Some (Inl e, s\<lparr>api_calls := calls1\<rparr>)
      | Some (Inr pages, calls1) \<Rightarrow>
          (case member_emails_loop slack_client (member_ids_of_pages pages) {}
                  (s\<lparr>api_calls := calls1\<rparr>) of
             (Inl e, s2) \<Rightarrow> Some (Inl e, s2)
           | (Inr member_emails, s2) \<Rightarrow>
               private_channels_loop slack_client rest
                 (AList.update channel_id
                    \<lparr>external_user_emails = member_emails,
                     external_user_group_ids = {},
                     is_public = False\<rparr>
                    channel_permissions)
                 s2))"

text \<open>The loop over \<open>public_channel_ids\<close>: every public channel shares the workspace access.\<close>

fun public_channels_loop ::
  "string list \<Rightarrow> ExternalAccess \<Rightarrow> (string \<times> ExternalAccess) list
     \<Rightarrow> (string \<times> ExternalAccess) list" where
  "public_channels_loop [] workspace_permissions channel_permissions = channel_permissions"
| "public_channels_loop (channel_id # rest) workspace_permissions channel_permissions =
     public_channels_loop rest workspace_permissions
       (AList.update channel_id workspace_permissions channel_permissions)"

definition fetch_channel_permissions ::
  "WebClient \<Rightarrow> ExternalAccess \<Rightarrow> SyncState
     \<Rightarrow> ((py_error + (string \<times> ExternalAccess) list) \<times> SyncState) option" where
  "fetch_channel_permissions slack_client workspace_permissions s =
     (case get_channels_call slack_client True False s of
        (Inl e, s1) \<Rightarrow> Some (Inl e, s1)
      | (Inr public_channels, s1) \<Rightarrow>
          (case get_channels_call slack_client False True s1 of
             (Inl e, s2) \<Rightarrow> Some (Inl e, s2)
           | (Inr private_channels, s2) \<Rightarrow>
               private_channels_loop slack_client (channel_ids private_channels)
                 (public_channels_loop (channel_ids public_channels) workspace_permissions [])
                 s2))"

text \<open>
  \<open>SlimDocument\<close> and \<open>DocExternalAccess\<close> (declared outside the modelled files), and the
  heartbeat callback: \<open>should_stop\<close> is asked once after every batch, and its answer may
  change from one poll to the next, so it is a function of the number of earlier polls.
\<close>

record SlimDocument =
  slim_id :: string
  slim_external_access :: "ExternalAccess option"

record DocExternalAccess =
  doc_external_access :: ExternalAccess
  doc_id :: string

record IndexingHeartbeat =
  should_stop :: "nat \<Rightarrow> bool"

text \<open>
  \<open>_get_slack_document_access\<close> is a generator: the result is what it yields, in order,
  and the exception that ended it, if any.  The inner loop handles one batch.
\<close>

definition no_external_access_message :: "string \<Rightarrow> string" where
  "no_external_access_message document =
     ''No external access for document '' @ document
       @ ''. Please check to make sure that your Slack bot token has the ''
       @ ''`channels:read` scope''"

definition stop_signal_message :: string where
  "stop_signal_message = ''_get_slack_document_access: Stop signal detected''"

fun doc_metadata_loop :: "SlimDocument list \<Rightarrow> DocExternalAccess list \<times> py_error option" where
  "doc_metadata_loop [] = ([], None)"
| "doc_metadata_loop (doc_metadata # rest) =
     (case slim_external_access doc_metadata of
        None \<Rightarrow>
          ([], Some (ValueError (no_external_access_message (slim_id doc_metadata))))
      | Some access \<Rightarrow>
          (case doc_metadata_loop rest of
             (ys, err) \<Rightarrow>
               (\<lparr>doc_external_access = access, doc_id = slim_id doc_metadata\<rparr> # ys, err)))"

fun doc_metadata_batches_loop ::
  "SlimDocument list list \<Rightarrow> IndexingHeartbeat option \<Rightarrow> nat
     \<Rightarrow> DocExternalAccess list \<times> py_error option" where
  "doc_metadata_batches_loop [] callback polls = ([], None)"
| "doc_metadata_batches_loop (doc_metadata_batch # rest) callback polls =
     (case doc_metadata_loop doc_metadata_batch of
        (ys, Some e) \<Rightarrow> (ys, Some e)
      | (ys, None) \<Rightarrow>
          (case callback of
             None \<Rightarrow>
               (case doc_metadata_batches_loop rest callback polls of
                  (ys', err) \<Rightarrow> (ys @ ys', err))
           | Some cb \<Rightarrow>
               if should_stop cb polls
               then (ys, Some (RuntimeError stop_signal_message))
               else
                 (case doc_metadata_batches_loop rest callback (polls + 1) of
                    (ys', err) \<Rightarrow> (ys @ ys', err))))"

text \<open>
  \<open>retrieve_all_slim_documents\<close> belongs to the Slack connector, outside the modelled
  files: the batches it produces are a parameter.  \<open>channel_permissions\<close> is accepted and
  never read, as in the source.
\<close>

record SlackConnector =
  retrieve_all_slim_documents :: "SlimDocument list list"

definition get_slack_document_access ::
  "SlackConnector \<Rightarrow> (string \<times> ExternalAccess) list \<Rightarrow> IndexingHeartbeat option
     \<Rightarrow> DocExternalAccess list \<times> py_error option" where
  "get_slack_document_access slack_connector channel_permissions callback =
     doc_metadata_batches_loop (retrieve_all_slim_documents slack_connector) callback 0"

text \<open>
  \<open>slack_doc_sync\<close>.  The credential dictionary must hold \<open>slack_bot_token\<close>; building the
  client from the token and the connector from its configuration is the work of code
  outside the modelled files, so both are parameters.  The result is what the generator
  yields, the exception that ended it (if any) and the requests made; \<open>None\<close> when the
  pagination of some channel never ends.
\<close>

definition no_user_id_to_email_map_message :: string where
  "no_user_id_to_email_map_message =
     ''No user id to email map found. Please check to make sure that ''
       @ ''your Slack bot token has the `users:read.email` scope''"

record ConnectorCredentialPair =
  credential_json :: "(string \<times> string) list"

definition slack_doc_sync ::
  "ConnectorCredentialPair \<Rightarrow> (string \<Rightarrow> WebClient) \<Rightarrow> SlackConnector
     \<Rightarrow> IndexingHeartbeat option
     \<Rightarrow> (DocExternalAccess list \<times> py_error option \<times> api_call list) option" where
  "slack_doc_sync cc_pair make_slack_web_client slack_connector callback =
     (case map_of (credential_json cc_pair) ''slack_bot_token'' of
        None \<Rightarrow> Some ([], Some (KeyError ''slack_bot_token''), [])
      | Some token \<Rightarrow>
          let slack_client = make_slack_web_client token
          in (case fetch_user_id_to_email_map slack_client of
                Inl e \<Rightarrow> Some ([], Some e, [FetchUserIdToEmailMap])
              | Inr id_to_email \<Rightarrow>
                  if id_to_email = []
                  then Some ([], Some (ValueError no_user_id_to_email_map_message),
                             [FetchUserIdToEmailMap])
                  else
                    let workspace_permissions = fetch_workspace_permissions id_to_email
                    in (case fetch_channel_permissions slack_client workspace_permissions
                               \<lparr>user_id_to_email_map = id_to_email,
                                api_calls = [FetchUserIdToEmailMap]\<rparr> of
                          None \<Rightarrow> None
                        | Some (Inl e, s1) \<Rightarrow> Some ([], Some e, api_calls s1)
                        | Some (Inr channel_permissions, s1) \<Rightarrow>
                            (case get_slack_document_access slack_connector
                                    channel_permissions callback of
                               (ys, err) \<Rightarrow> Some (ys, err, api_calls s1)))))"

section \<open>Vocabulary of the statements about the Slack sync\<close>

text \<open>
  \<open>lookups uid s\<close> counts the \<open>users_info\<close> requests for \<open>uid\<close> made so far, and
  \<open>known_email s uid\<close> is the entry of \<open>uid\<close> in the identity map.  \<open>cached_lookup\<close>
  relates the state before and after a piece of the sync for a user whose lookup resolves:
  at most one further request, none when the map already holds an email, and after a
  request the map holds one.
\<close>

abbreviation lookups :: "string \<Rightarrow> SyncState \<Rightarrow> nat" where
  "lookups uid s \<equiv> count_list (api_calls s) (UsersInfo uid)"

abbreviation known_email :: "SyncState \<Rightarrow> string \<Rightarrow> string option" where
  "known_email s uid \<equiv> map_of (user_id_to_email_map s) uid"

definition cached_lookup :: "string \<Rightarrow> SyncState \<Rightarrow> SyncState \<Rightarrow> bool" where
  "cached_lookup uid s s' \<longleftrightarrow>
     lookups uid s \<le> lookups uid s' \<and> lookups uid s' \<le> lookups uid s + 1
     \<and> (truthy (known_email s uid)
          \<longrightarrow> lookups uid s' = lookups uid s \<and> known_email s' uid = known_email s uid)
     \<and> (lookups uid s < lookups uid s' \<longrightarrow> truthy (known_email s' uid))"

section \<open>Example inputs\<close>

text \<open>
  Concrete inputs on which the theorems below are instantiated: a mock server that accepts
  every checkpoint and one that answers with an error status, a connector holding one yield
  (its first document has no access, its second is public), a Slack connector whose second
  batch holds a document without access, and a decoder that knows the canonical dumps of two
  checkpoints and rejects every other blob it is asked about here.
\<close>

definition accepting_server :: MockServer where
  "accepting_server = \<lparr>add_checkpoint = (\<lambda>c. None)\<rparr>"

definition example_yield :: SingleConnectorYield where
  "example_yield =
     \<lparr>documents =
        [\<lparr>document_id = ''doc-1'', external_access = None\<rparr>,
         \<lparr>document_id = ''doc-2'',
          external_access = Some \<lparr>external_user_emails = {''a@example.com''},
                                  external_user_group_ids = {},
                                  is_public = True\<rparr>\<rparr>],
      checkpoint = \<lparr>has_more = False, last_document_id = Some ''doc-2''\<rparr>,
      failures = [\<lparr>failure_message = ''boom''\<rparr>],
      unhandled_exception = None\<rparr>"

definition example_connector :: MockConnector where
  "example_connector = \<lparr>connector_yields = Some [example_yield], current_yield_index = 0\<rparr>"

definition rejecting_server :: MockServer where
  "rejecting_server = \<lparr>add_checkpoint = (\<lambda>c. Some HTTPStatusError)\<rparr>"

definition example_slack_connector :: SlackConnector where
  "example_slack_connector =
     \<lparr>retrieve_all_slim_documents =
        [[\<lparr>slim_id = ''C1__1'',
           slim_external_access = Some \<lparr>external_user_emails = {''a@example.com''},
                                       external_user_group_ids = {},
                                       is_public = False\<rparr>\<rparr>],
         [\<lparr>slim_id = ''C2__1'', slim_external_access = None\<rparr>]]\<rparr>"

definition example_decode :: "string \<Rightarrow> MockConnectorCheckpoint option" where
  \<open>example_decode raw =
     (if raw = ''{"has_more":true,"last_document_id":null}''
      then Some \<lparr>has_more = True, last_document_id = None\<rparr>
      else if raw = ''{"has_more":false,"last_document_id":"doc-2"}''
      then Some \<lparr>has_more = False, last_document_id = Some ''doc-2''\<rparr>
      else None)\<close>

text \<open>
  A Slack workspace: \<open>U2\<close> is in the identity map; \<open>U1\<close> is an external user whose email
  only \<open>users_info\<close> knows; \<open>B1\<close> is a bot without email; \<open>U404\<close> gets a response that
  is not ok; any other user makes the request fail.  \<open>C1\<close> is public (a second public
  channel lacks its id); \<open>G1\<close> and \<open>G2\<close> are private, and the members of \<open>G1\<close> come in
  two pages.
\<close>

definition example_profile :: "string option \<Rightarrow> SlackProfile" where
  "example_profile e =
     \<lparr>profile_display_name = Some ''disp'', profile_first_name = Some ''First'',
      profile_last_name = None, profile_email = e\<rparr>"

definition example_client :: WebClient where
  "example_client =
     \<lparr>users_info = (\<lambda>user.
        if user = ''U1''
        then Inr \<lparr>response_ok = True,
                  response_user = Some \<lparr>user_real_name = Some '''',
                                         user_profile = Some (example_profile (Some ''u1@ext.com''))\<rparr>\<rparr>
        else if user = ''B1''
        then Inr \<lparr>response_ok = True,
                  response_user = Some \<lparr>user_real_name = Some ''Bot'',
                                         user_profile = Some (example_profile None)\<rparr>\<rparr>
        else if user = ''U404''
        then Inr \<lparr>response_ok = False, response_user = None\<rparr>
        else Inl SlackApiError),
      conversations_members = (\<lambda>channel cursor.
        if channel = ''G1'' \<and> cursor = None
        then Inr \<lparr>members_ok = True, members = Some [''U1'', ''B1''], next_cursor = Some ''p2''\<rparr>
        else if channel = ''G1'' \<and> cursor = Some ''p2''
        then Inr \<lparr>members_ok = True, members = Some [''U2''], next_cursor = Some ''''\<rparr>
        else if channel = ''G2'' \<and> cursor = None
        then Inr \<lparr>members_ok = True, members = Some [''B1'', ''U1''], next_cursor = None\<rparr>
        else Inl SlackApiError),
      get_channels = (\<lambda>get_public get_private.
        if get_public \<and> \<not> get_private
        then Inr [[(''id'', ''C1''), (''name'', ''general'')], [(''name'', ''no-id'')]]
        else if get_private \<and> \<not> get_public
        then Inr [[(''id'', ''G1'')], [(''id'', ''G2'')]]
        else Inr []),
      fetch_user_id_to_email_map = Inr [(''U2'', ''u2@example.com'')]\<rparr>"

definition example_state :: SyncState where
  "example_state =
     \<lparr>user_id_to_email_map = [(''U2'', ''u2@example.com'')], api_calls = [FetchUserIdToEmailMap]\<rparr>"

definition empty_workspace_client :: WebClient where
  "empty_workspace_client = example_client\<lparr>fetch_user_id_to_email_map := Inr []\<rparr>"

definition example_cc_pair :: ConnectorCredentialPair where
  "example_cc_pair = \<lparr>credential_json = [(''slack_bot_token'', ''xoxb-1'')]\<rparr>"

text \<open>The members of one private channel, with repetitions.\<close>

definition example_member_ids :: "string list" where
  "example_member_ids = [''U1'', ''B1'', ''U2'', ''B1'', ''U1'']"


section \<open>Verified properties\<close>

subsection \<open>Batch coordination\<close>

text \<open>
  C2.  An index attempt is coordination complete exactly when \<open>total_batches\<close> is set and
  \<open>completed_batches\<close> has reached it; with \<open>total_batches\<close> unset it is never complete.
\<close>

theorem is_coordination_complete_iff:
  "(is_coordination_complete a \<longleftrightarrow>
      (\<exists>n. total_batches a = Some n \<and> completed_batches a \<ge> n))
   \<and> (total_batches a = None \<longrightarrow> \<not> is_coordination_complete a)"
  by (cases "total_batches a") (simp_all add: is_coordination_complete_def)

theorem is_coordination_complete_iff_witness:
  "is_coordination_complete \<lparr>total_batches = Some 3, completed_batches = 3\<rparr>
   \<and> \<not> is_coordination_complete \<lparr>total_batches = Some 3, completed_batches = 2\<rparr>
   \<and> \<not> is_coordination_complete \<lparr>total_batches = None, completed_batches = 7\<rparr>"
  using is_coordination_complete_iff
          [of "\<lparr>total_batches = Some 3, completed_batches = 3\<rparr>"]
        is_coordination_complete_iff
          [of "\<lparr>total_batches = Some 3, completed_batches = 2\<rparr>"]
        is_coordination_complete_iff
          [of "\<lparr>total_batches = None, completed_batches = 7\<rparr>"]
  by simp

subsection \<open>Mock connector: the initial checkpoint\<close>

text \<open>
  C8.  The checkpoint built for a first-ever run asks for more data and carries no cursor.
\<close>

theorem build_dummy_checkpoint_initial:
  "has_more build_dummy_checkpoint = True
   \<and> last_document_id build_dummy_checkpoint = None"
  by (simp add: build_dummy_checkpoint_def)

subsection \<open>Mock connector: one call of the generator\<close>

lemmas example_defs =
  accepting_server_def rejecting_server_def example_yield_def example_connector_def

lemmas load_defs =
  load_from_checkpoint_def load_from_checkpoint_with_perm_sync_def
  load_from_checkpoint_common_def save_checkpoint_def add_mock_permissions_def Let_def

lemma yielded_map_Yield: "yielded (map Yield xs) = xs"
  by (induction xs) simp_all

lemma common_unfold:
  "load_from_checkpoint_common server self start end' cp perms =
     (case connector_yields self of
        None \<Rightarrow> (self, [], Inl (ValueError ''No connector yields configured''))
      | Some yields \<Rightarrow>
          (case add_checkpoint server cp of
             Some e \<Rightarrow> (self, [], Inl e)
           | None \<Rightarrow>
               if current_yield_index self \<ge> length yields
               then (self\<lparr>current_yield_index := current_yield_index self + 1\<rparr>,
                     CheckpointSaved cp # map Yield [], Inl IndexError)
               else if truthy (unhandled_exception (yields ! current_yield_index self))
               then (self\<lparr>current_yield_index := current_yield_index self + 1\<rparr>,
                     CheckpointSaved cp # map Yield [],
                     Inl (RuntimeError (the (unhandled_exception (yields ! current_yield_index self)))))
               else (self\<lparr>current_yield_index := current_yield_index self + 1,
                          connector_yields := Some (yields[current_yield_index self :=
                            (yields ! current_yield_index self)
                              \<lparr>documents := map (add_mock_permissions perms)
                                 (documents (yields ! current_yield_index self))\<rparr>])\<rparr>,
                     CheckpointSaved cp
                       # map Yield (map Doc (map (add_mock_permissions perms)
                                      (documents (yields ! current_yield_index self)))
                                    @ map Failure (failures (yields ! current_yield_index self))),
                     Inr (checkpoint (yields ! current_yield_index self)))))"
  by (simp add: load_from_checkpoint_common_def save_checkpoint_def Let_def
           split: option.splits)


lemma common_success:
  assumes "connector_yields self = Some yields"
      and "add_checkpoint server cp = None"
      and "current_yield_index self < length yields"
      and "\<not> truthy (unhandled_exception (yields ! current_yield_index self))"
  shows "snd (load_from_checkpoint_common server self start end' cp perms) =
           (CheckpointSaved cp
              # map Yield (map Doc (map (add_mock_permissions perms) (documents (yields ! current_yield_index self)))
              @ map Failure (failures (yields ! current_yield_index self))),
            Inr (checkpoint (yields ! current_yield_index self)))"
  using assms unfolding common_unfold
  by simp

lemma common_cases:
  assumes "load_from_checkpoint_common server self start end' cp perms = (self', evs, outcome)"
  shows "(\<exists>e. outcome = Inl e \<and> yielded evs = [])
       \<or> (\<exists>yields. connector_yields self = Some yields
             \<and> current_yield_index self < length yields
             \<and> yielded evs = map Doc (map (add_mock_permissions perms) (documents (yields ! current_yield_index self)))
                  @ map Failure (failures (yields ! current_yield_index self))
             \<and> outcome = Inr (checkpoint (yields ! current_yield_index self)))"
  using assms unfolding common_unfold
  by (auto simp: yielded_map_Yield simp del: map_map map_append list.map
           split: option.splits if_splits)

lemma add_mock_permissions_False: "map (add_mock_permissions False) ds = ds"
  by (induction ds) (simp_all add: add_mock_permissions_def)

lemma add_mock_permissions_True_access:
  "\<exists>access. external_access (add_mock_permissions True d) = Some access"
  by (cases "external_access d") (simp_all add: add_mock_permissions_def)



text \<open>
  C5.  One call of \<open>load_from_checkpoint\<close> is one finite batch.  When the yields are
  configured, the save succeeds, the index is in range and no unhandled exception is
  simulated, the call yields the documents of the current yield (unchanged), then its
  failures, and returns its checkpoint, which carries \<open>has_more\<close>.  In every other case the
  call ends with an exception and has yielded nothing.
\<close>

theorem load_from_checkpoint_one_batch:
  "(connector_yields self = Some yields \<and> add_checkpoint server cp = None
      \<and> current_yield_index self < length yields
      \<and> \<not> truthy (unhandled_exception (yields ! current_yield_index self))
    \<longrightarrow> snd (load_from_checkpoint server self start end' cp) =
          (CheckpointSaved cp
             # map Yield (map Doc (documents (yields ! current_yield_index self))
                          @ map Failure (failures (yields ! current_yield_index self))),
           Inr (checkpoint (yields ! current_yield_index self))))
   \<and> (load_from_checkpoint server self start end' cp = (self', evs, outcome)
      \<longrightarrow> (\<exists>e. outcome = Inl e \<and> yielded evs = [])
          \<or> (\<exists>yields. connector_yields self = Some yields
                \<and> current_yield_index self < length yields
                \<and> yielded evs = map Doc (documents (yields ! current_yield_index self))
                                 @ map Failure (failures (yields ! current_yield_index self))
                \<and> outcome = Inr (checkpoint (yields ! current_yield_index self))))"
proof (intro conjI impI)
  assume "connector_yields self = Some yields \<and> add_checkpoint server cp = None
      \<and> current_yield_index self < length yields
      \<and> \<not> truthy (unhandled_exception (yields ! current_yield_index self))"
  then show "snd (load_from_checkpoint server self start end' cp) =
          (CheckpointSaved cp
             # map Yield (map Doc (documents (yields ! current_yield_index self))
                          @ map Failure (failures (yields ! current_yield_index self))),
           Inr (checkpoint (yields ! current_yield_index self)))"
    unfolding load_from_checkpoint_def
    by (simp add: common_success add_mock_permissions_False)
next
  assume "load_from_checkpoint server self start end' cp = (self', evs, outcome)"
  then show "(\<exists>e. outcome = Inl e \<and> yielded evs = [])
          \<or> (\<exists>yields. connector_yields self = Some yields
                \<and> current_yield_index self < length yields
                \<and> yielded evs = map Doc (documents (yields ! current_yield_index self))
                                 @ map Failure (failures (yields ! current_yield_index self))
                \<and> outcome = Inr (checkpoint (yields ! current_yield_index self)))"
    unfolding load_from_checkpoint_def
    using common_cases[of server self start end' cp False self' evs outcome]
    by (simp add: add_mock_permissions_False)
qed

theorem load_from_checkpoint_one_batch_witness:
  "snd (load_from_checkpoint accepting_server example_connector 0 1 build_dummy_checkpoint) =
     (CheckpointSaved build_dummy_checkpoint
        # map Yield (map Doc (documents example_yield) @ map Failure (failures example_yield)),
      Inr (checkpoint example_yield))
   \<and> has_more (checkpoint example_yield) = False
   \<and> length (documents example_yield) = 2 \<and> length (failures example_yield) = 1"
proof -
  have h: "connector_yields example_connector = Some [example_yield]
      \<and> add_checkpoint accepting_server build_dummy_checkpoint = None
      \<and> current_yield_index example_connector < length [example_yield]
      \<and> \<not> truthy (unhandled_exception ([example_yield] ! current_yield_index example_connector))"
    by (simp add: example_defs)
  have i: "[example_yield] ! current_yield_index example_connector = example_yield"
    by (simp add: example_connector_def)
  have c: "has_more (checkpoint example_yield) = False
     \<and> length (documents example_yield) = 2 \<and> length (failures example_yield) = 1"
    by (simp add: example_yield_def)
  from load_from_checkpoint_one_batch
         [of example_connector "[example_yield]" accepting_server build_dummy_checkpoint 0 1]
       h i c
  show ?thesis by simp
qed

subsection \<open>Documents without access\<close>

lemma doc_metadata_loop_snd:
  "snd (doc_metadata_loop ds) =
     map_option (\<lambda>d. ValueError (no_external_access_message (slim_id d)))
       (find (\<lambda>d. slim_external_access d = None) ds)"
  by (induction ds) (auto split: option.splits prod.splits)

lemma doc_metadata_loop_fst:
  "fst (doc_metadata_loop ds) =
     map (\<lambda>d. \<lparr>doc_external_access = the (slim_external_access d), doc_id = slim_id d\<rparr>)
       (takeWhile (\<lambda>d. slim_external_access d \<noteq> None) ds)"
  by (induction ds) (auto split: option.splits prod.splits)

lemma batches_loop_snd_Cons:
  "snd (doc_metadata_batches_loop (b # bs) callback polls) =
     (case snd (doc_metadata_loop b) of
        Some e \<Rightarrow> Some e
      | None \<Rightarrow>
          (case callback of
             None \<Rightarrow> snd (doc_metadata_batches_loop bs callback polls)
           | Some cb \<Rightarrow>
               if should_stop cb polls then Some (RuntimeError stop_signal_message)
               else snd (doc_metadata_batches_loop bs callback (polls + 1))))"
  by (auto split: prod.splits option.splits)

lemma batches_loop_missing:
  "\<exists>d\<in>set (concat batches). slim_external_access d = None \<Longrightarrow>
   \<exists>e. snd (doc_metadata_batches_loop batches callback polls) = Some e
      \<and> (e = RuntimeError stop_signal_message
         \<or> (\<exists>d\<in>set (concat batches). slim_external_access d = None
               \<and> e = ValueError (no_external_access_message (slim_id d))))"
proof (induction batches arbitrary: polls)
  case Nil
  then show ?case by simp
next
  case (Cons b bs)
  show ?case
  proof (cases "find (\<lambda>d. slim_external_access d = None) b")
    case (Some d)
    then have "d \<in> set b" "slim_external_access d = None"
      by (auto simp: find_Some_iff)
    moreover from Some
    have "snd (doc_metadata_batches_loop (b # bs) callback polls) =
            Some (ValueError (no_external_access_message (slim_id d)))"
      unfolding batches_loop_snd_Cons doc_metadata_loop_snd by simp
    ultimately show ?thesis by auto
  next
    case None
    then have "\<forall>d\<in>set b. slim_external_access d \<noteq> None"
      by (simp add: find_None_iff)
    with Cons.prems have rest: "\<exists>d\<in>set (concat bs). slim_external_access d = None" by auto
    have step: "snd (doc_metadata_batches_loop (b # bs) callback polls) =
            (case callback of
               None \<Rightarrow> snd (doc_metadata_batches_loop bs callback polls)
             | Some cb \<Rightarrow>
                 if should_stop cb polls then Some (RuntimeError stop_signal_message)
                 else snd (doc_metadata_batches_loop bs callback (polls + 1)))"
      unfolding batches_loop_snd_Cons doc_metadata_loop_snd using None by simp
    show ?thesis
    proof (cases callback)
      case cbNone: None
      with step Cons.IH[OF rest, of polls] show ?thesis by auto
    next
      case (Some cb)
      show ?thesis
      proof (cases "should_stop cb polls")
        case True
        with step Some show ?thesis by simp
      next
        case False
        with step Some Cons.IH[OF rest, of "polls + 1"] show ?thesis by auto
      qed
    qed
  qed
qed

lemma find_append_case:
  "find P (xs @ ys) = (case find P xs of None \<Rightarrow> find P ys | Some x \<Rightarrow> Some x)"
  by (induction xs) simp_all

lemma batches_loop_no_callback:
  "snd (doc_metadata_batches_loop batches None polls) =
     map_option (\<lambda>d. ValueError (no_external_access_message (slim_id d)))
       (find (\<lambda>d. slim_external_access d = None) (concat batches))"
proof (induction batches)
  case Nil
  show ?case by simp
next
  case (Cons b bs)
  show ?case
    unfolding batches_loop_snd_Cons doc_metadata_loop_snd
    by (cases "find (\<lambda>d. slim_external_access d = None) b")
       (simp_all add: Cons.IH find_append_case)
qed

text \<open>
  C1, as the claim is worded: the mock connector does not fail on a document without
  access.  The first document of the example has none; the call returns the checkpoint
  and yields that document with the mock access filled in.
\<close>

theorem perm_sync_missing_access_counterexample:
  "external_access (hd (documents example_yield)) = None
   \<and> snd (load_from_checkpoint_with_perm_sync accepting_server example_connector 0 1
            build_dummy_checkpoint) =
       ([CheckpointSaved build_dummy_checkpoint,
         Yield (Doc \<lparr>document_id = ''doc-1'',
                     external_access = Some \<lparr>external_user_emails = EXTERNAL_USER_EMAILS,
                                             external_user_group_ids = EXTERNAL_USER_GROUP_IDS,
                                             is_public = False\<rparr>\<rparr>),
         Yield (Doc \<lparr>document_id = ''doc-2'',
                     external_access = Some \<lparr>external_user_emails = {''a@example.com''},
                                             external_user_group_ids = {},
                                             is_public = True\<rparr>\<rparr>),
         Yield (Failure \<lparr>failure_message = ''boom''\<rparr>)],
        Inr \<lparr>has_more = False, last_document_id = Some ''doc-2''\<rparr>)"
  by (simp add: load_defs example_defs)

text \<open>
  C1, amended.  Under the same conditions as for \<open>load_from_checkpoint\<close>, the call with
  permission sync succeeds whether or not a document lacks access; every document it yields
  carries an access; a document without one receives the fixed mock access, which is not
  public, and a document with one is yielded unchanged.  The loud failure is on the Slack
  side: when some listed document has no access, \<open>_get_slack_document_access\<close> ends with an
  exception, the \<open>ValueError\<close> naming such a document unless a stop signal came first.
\<close>

theorem perm_sync_missing_access:
  "(connector_yields self = Some yields \<and> add_checkpoint server cp = None
      \<and> current_yield_index self < length yields
      \<and> \<not> truthy (unhandled_exception (yields ! current_yield_index self))
    \<longrightarrow> snd (load_from_checkpoint_with_perm_sync server self start end' cp) =
          (CheckpointSaved cp
             # map Yield (map Doc (map (add_mock_permissions True)
                                     (documents (yields ! current_yield_index self)))
                          @ map Failure (failures (yields ! current_yield_index self))),
           Inr (checkpoint (yields ! current_yield_index self))))
   \<and> (load_from_checkpoint_with_perm_sync server self start end' cp = (self', evs, outcome)
        \<longrightarrow> (\<forall>d. Doc d \<in> set (yielded evs) \<longrightarrow> external_access d \<noteq> None))
   \<and> (external_access d = None \<longrightarrow>
        add_mock_permissions True d =
          d\<lparr>external_access := Some \<lparr>external_user_emails = EXTERNAL_USER_EMAILS,
                                     external_user_group_ids = EXTERNAL_USER_GROUP_IDS,
                                     is_public = False\<rparr>\<rparr>)
   \<and> (external_access d \<noteq> None \<longrightarrow> add_mock_permissions True d = d)
   \<and> ((\<exists>m\<in>set (concat (retrieve_all_slim_documents slack_connector)).
          slim_external_access m = None)
        \<longrightarrow> (\<exists>e. snd (get_slack_document_access slack_connector channel_permissions callback)
                    = Some e
                \<and> (e = RuntimeError stop_signal_message
                   \<or> (\<exists>m\<in>set (concat (retrieve_all_slim_documents slack_connector)).
                         slim_external_access m = None
                         \<and> e = ValueError (no_external_access_message (slim_id m))))))"
proof (intro conjI impI)
  assume "connector_yields self = Some yields \<and> add_checkpoint server cp = None
      \<and> current_yield_index self < length yields
      \<and> \<not> truthy (unhandled_exception (yields ! current_yield_index self))"
  then show "snd (load_from_checkpoint_with_perm_sync server self start end' cp) =
          (CheckpointSaved cp
             # map Yield (map Doc (map (add_mock_permissions True)
                                     (documents (yields ! current_yield_index self)))
                          @ map Failure (failures (yields ! current_yield_index self))),
           Inr (checkpoint (yields ! current_yield_index self)))"
    unfolding load_from_checkpoint_with_perm_sync_def by (simp add: common_success)
next
  assume r: "load_from_checkpoint_with_perm_sync server self start end' cp = (self', evs, outcome)"
  show "\<forall>d. Doc d \<in> set (yielded evs) \<longrightarrow> external_access d \<noteq> None"
    using common_cases[OF r[unfolded load_from_checkpoint_with_perm_sync_def]]
          add_mock_permissions_True_access
    by auto
next
  assume "external_access d = None"
  then show "add_mock_permissions True d =
          d\<lparr>external_access := Some \<lparr>external_user_emails = EXTERNAL_USER_EMAILS,
                                     external_user_group_ids = EXTERNAL_USER_GROUP_IDS,
                                     is_public = False\<rparr>\<rparr>"
    by (simp add: add_mock_permissions_def)
next
  assume "external_access d \<noteq> None"
  then show "add_mock_permissions True d = d"
    by (simp add: add_mock_permissions_def)
next
  assume "\<exists>m\<in>set (concat (retrieve_all_slim_documents slack_connector)).
          slim_external_access m = None"
  then show "\<exists>e. snd (get_slack_document_access slack_connector channel_permissions callback)
                    = Some e
                \<and> (e = RuntimeError stop_signal_message
                   \<or> (\<exists>m\<in>set (concat (retrieve_all_slim_documents slack_connector)).
                         slim_external_access m = None
                         \<and> e = ValueError (no_external_access_message (slim_id m))))"
    unfolding get_slack_document_access_def by (rule batches_loop_missing)
qed

theorem perm_sync_missing_access_witness:
  "snd (load_from_checkpoint_with_perm_sync accepting_server example_connector 0 1
          build_dummy_checkpoint) =
     (CheckpointSaved build_dummy_checkpoint
        # map Yield (map Doc (map (add_mock_permissions True) (documents example_yield))
                     @ map Failure (failures example_yield)),
      Inr (checkpoint example_yield))
   \<and> (\<exists>e. snd (get_slack_document_access example_slack_connector [] None) = Some e
          \<and> e \<noteq> RuntimeError stop_signal_message)"
proof -
  have h: "connector_yields example_connector = Some [example_yield]
      \<and> add_checkpoint accepting_server build_dummy_checkpoint = None
      \<and> current_yield_index example_connector < length [example_yield]
      \<and> \<not> truthy (unhandled_exception ([example_yield] ! current_yield_index example_connector))"
    by (simp add: example_defs)
  have i: "[example_yield] ! current_yield_index example_connector = example_yield"
    by (simp add: example_connector_def)
  have m: "\<exists>m\<in>set (concat (retrieve_all_slim_documents example_slack_connector)).
             slim_external_access m = None"
    by (simp add: example_slack_connector_def)
  have v: "snd (get_slack_document_access example_slack_connector [] None)
             \<noteq> Some (RuntimeError stop_signal_message)"
    by (simp add: get_slack_document_access_def example_slack_connector_def)
  note t = perm_sync_missing_access
             [of example_connector "[example_yield]" accepting_server build_dummy_checkpoint
                 0 1 _ _ _ _ example_slack_connector "[]" None]
  from t h i have "snd (load_from_checkpoint_with_perm_sync accepting_server example_connector 0 1
          build_dummy_checkpoint) =
     (CheckpointSaved build_dummy_checkpoint
        # map Yield (map Doc (map (add_mock_permissions True) (documents example_yield))
                     @ map Failure (failures example_yield)),
      Inr (checkpoint example_yield))"
    by simp
  moreover from t m v
  have "\<exists>e. snd (get_slack_document_access example_slack_connector [] None) = Some e
          \<and> e \<noteq> RuntimeError stop_signal_message"
    by blast
  ultimately show ?thesis by blast
qed

subsection \<open>Mock connector: validating a persisted checkpoint\<close>

text \<open>
  C6, as the claim is worded: a blob that does not deserialize is reported with the
  library's \<open>ValidationError\<close>, not with \<open>MalformedCheckpointError\<close>.
\<close>

theorem validate_checkpoint_json_malformed_counterexample:
  "example_decode ''{'' = None
   \<and> validate_checkpoint_json example_decode ''{'' = Inl ValidationError
   \<and> validate_checkpoint_json example_decode ''{'' \<noteq> Inl MalformedCheckpointError"
  by (simp add: validate_checkpoint_json_def model_validate_json_def example_decode_def)

text \<open>
  C6, amended.  \<open>validate_checkpoint_json\<close> fails with \<open>ValidationError\<close> on a blob that
  does not deserialize into a checkpoint and returns the deserialized checkpoint otherwise.
\<close>

theorem validate_checkpoint_json_result:
  "(decode checkpoint_json = None
      \<longrightarrow> validate_checkpoint_json decode checkpoint_json = Inl ValidationError)
   \<and> (decode checkpoint_json = Some c
      \<longrightarrow> validate_checkpoint_json decode checkpoint_json = Inr c)"
  by (simp add: validate_checkpoint_json_def model_validate_json_def)

theorem validate_checkpoint_json_result_witness:
  \<open>validate_checkpoint_json example_decode ''{"has_more":'' = Inl ValidationError
   \<and> validate_checkpoint_json example_decode ''{"has_more":true,"last_document_id":null}''
       = Inr build_dummy_checkpoint\<close>
proof -
  have a: \<open>example_decode ''{"has_more":'' = None\<close>
    by (simp add: example_decode_def)
  have b: \<open>example_decode ''{"has_more":true,"last_document_id":null}''
             = Some build_dummy_checkpoint\<close>
    by (simp add: example_decode_def build_dummy_checkpoint_def)
  from validate_checkpoint_json_result [of example_decode \<open>''{"has_more":''\<close>] a
       validate_checkpoint_json_result
         [of example_decode \<open>''{"has_more":true,"last_document_id":null}''\<close> build_dummy_checkpoint] b
  show ?thesis by simp
qed

subsection \<open>Slack: expert information by user id\<close>



subsection \<open>Slack doc sync: the empty identity map\<close>

text \<open>
  C9.  When the credentials hold the bot token and the identity map fetched from Slack is
  empty, \<open>slack_doc_sync\<close> ends with the \<open>ValueError\<close> about the missing map: it has
  yielded nothing and has made no request besides fetching the map, so neither workspace
  nor channel permissions have been computed.
\<close>

theorem slack_doc_sync_empty_map:
  "map_of (credential_json cc_pair) ''slack_bot_token'' = Some token
   \<and> fetch_user_id_to_email_map (make_slack_web_client token) = Inr []
   \<longrightarrow> slack_doc_sync cc_pair make_slack_web_client slack_connector callback
         = Some ([], Some (ValueError no_user_id_to_email_map_message), [FetchUserIdToEmailMap])"
  by (simp add: slack_doc_sync_def)

theorem slack_doc_sync_empty_map_witness:
  "slack_doc_sync example_cc_pair (\<lambda>token. empty_workspace_client) example_slack_connector None
     = Some ([], Some (ValueError no_user_id_to_email_map_message), [FetchUserIdToEmailMap])"
proof -
  have "map_of (credential_json example_cc_pair) ''slack_bot_token'' = Some ''xoxb-1''
        \<and> fetch_user_id_to_email_map ((\<lambda>token. empty_workspace_client) ''xoxb-1'') = Inr []"
    by (simp add: example_cc_pair_def empty_workspace_client_def)
  with slack_doc_sync_empty_map
         [of example_cc_pair "''xoxb-1''" "\<lambda>token. empty_workspace_client"
             example_slack_connector None]
  show ?thesis by blast
qed

subsection \<open>Slack doc sync: no access record is public\<close>








lemma example_fetch_channel_permissions:
  "fetch_channel_permissions example_client
      (fetch_workspace_permissions [(''U2'', ''u2@example.com'')]) example_state =
   Some (Inr [(''C1'', \<lparr>external_user_emails = {''u2@example.com''},
                       external_user_group_ids = {}, is_public = False\<rparr>),
              (''G1'', \<lparr>external_user_emails = {''u2@example.com'', ''u1@ext.com''},
                       external_user_group_ids = {}, is_public = False\<rparr>),
              (''G2'', \<lparr>external_user_emails = {''u1@ext.com''},
                       external_user_group_ids = {}, is_public = False\<rparr>)],
         \<lparr>user_id_to_email_map = [(''U2'', ''u2@example.com''), (''U1'', ''u1@ext.com'')],
          api_calls = [FetchUserIdToEmailMap, GetChannels True False, GetChannels False True,
                       ConversationsMembers ''G1'' None, ConversationsMembers ''G1'' (Some ''p2''),
                       UsersInfo ''U1'', UsersInfo ''B1'',
                       ConversationsMembers ''G2'' None, UsersInfo ''B1'']\<rparr>)"
  by code_simp







subsection \<open>Slack doc sync: resolving the members of a private channel\<close>

lemma cached_lookup_refl: "cached_lookup uid s s"
  by (simp add: cached_lookup_def)

lemma cached_lookup_trans:
  "cached_lookup uid s s1 \<Longrightarrow> cached_lookup uid s1 s2 \<Longrightarrow> cached_lookup uid s s2"
proof -
  assume a: "cached_lookup uid s s1" and b: "cached_lookup uid s1 s2"
  show ?thesis
  proof (cases "lookups uid s < lookups uid s1")
    case True
    with a have "truthy (known_email s1 uid)" by (simp add: cached_lookup_def)
    with b have "lookups uid s2 = lookups uid s1" "known_email s2 uid = known_email s1 uid"
      by (simp_all add: cached_lookup_def)
    with a show ?thesis by (simp add: cached_lookup_def)
  next
    case False
    with a have "lookups uid s1 = lookups uid s" by (simp add: cached_lookup_def)
    with a b show ?thesis by (simp add: cached_lookup_def)
  qed
qed

lemma cached_lookup_calls:
  "count_list calls1 (UsersInfo uid) = lookups uid s \<Longrightarrow>
   cached_lookup uid s (s\<lparr>api_calls := calls1\<rparr>)"
  by (simp add: cached_lookup_def)

lemma member_email_step_cases:
  assumes "member_email_step client member_id s = (Inr x, s1)"
  shows "(truthy (known_email s member_id) \<and> x = known_email s member_id \<and> s1 = s)
       \<or> (\<not> truthy (known_email s member_id)
          \<and> (\<exists>y. users_info_email client member_id = Inr y
               \<and> ((truthy y \<and> x = y
                    \<and> s1 = s\<lparr>api_calls := api_calls s @ [UsersInfo member_id],
                             user_id_to_email_map :=
                               AList.update member_id (the y) (user_id_to_email_map s)\<rparr>)
                  \<or> (\<not> truthy y \<and> x = None
                     \<and> s1 = s\<lparr>api_calls := api_calls s @ [UsersInfo member_id]\<rparr>))))"
  using assms
  by (auto simp: member_email_step_def Let_def split: if_splits sum.splits)

lemma member_email_step_other:
  assumes "member_email_step client member_id s = (r, s1)" and "member_id \<noteq> uid"
  shows "lookups uid s1 = lookups uid s \<and> known_email s1 uid = known_email s uid"
  using assms
  by (auto simp: member_email_step_def Let_def update_conv' split: if_splits sum.splits)

lemma member_email_step_truthy:
  assumes "member_email_step client member_id s = (r, s1)" and "truthy (known_email s uid)"
  shows "known_email s1 uid = known_email s uid"
  using assms
  by (cases "member_id = uid")
     (auto simp: member_email_step_def Let_def update_conv' split: if_splits sum.splits)

lemma member_email_step_cached:
  assumes "users_info_email client uid = Inr (Some e)" and "e \<noteq> []"
      and "member_email_step client member_id s = (r, s1)"
  shows "cached_lookup uid s s1"
proof (cases "member_id = uid")
  case False
  with member_email_step_other[OF assms(3)] show ?thesis
    by (simp add: cached_lookup_def)
next
  case True
  with assms show ?thesis
    by (auto simp: member_email_step_def Let_def update_conv' cached_lookup_def
             split: if_splits)
qed

lemma member_emails_loop_Cons:
  "member_emails_loop client (member_id # rest) acc s = (r, s') \<Longrightarrow>
   (\<exists>e. member_email_step client member_id s = (Inl e, s') \<and> r = Inl e)
   \<or> (\<exists>x s1. member_email_step client member_id s = (Inr x, s1)
        \<and> member_emails_loop client rest (case x of None \<Rightarrow> acc | Some m \<Rightarrow> insert m acc) s1
            = (r, s'))"
  by (auto split: prod.splits sum.splits option.splits)

lemma member_emails_loop_cached:
  assumes "users_info_email client uid = Inr (Some e)" and "e \<noteq> []"
  shows "member_emails_loop client ids acc s = (r, s') \<Longrightarrow> cached_lookup uid s s'"
proof (induction ids arbitrary: acc s)
  case Nil
  then show ?case by (simp add: cached_lookup_refl)
next
  case (Cons member_id rest)
  from member_emails_loop_Cons[OF Cons.prems] show ?case
  proof
    assume "\<exists>e. member_email_step client member_id s = (Inl e, s') \<and> r = Inl e"
    then show ?thesis using member_email_step_cached[OF assms] by blast
  next
    assume "\<exists>x s1. member_email_step client member_id s = (Inr x, s1)
        \<and> member_emails_loop client rest (case x of None \<Rightarrow> acc | Some m \<Rightarrow> insert m acc) s1
            = (r, s')"
    then obtain x s1 where
      st: "member_email_step client member_id s = (Inr x, s1)" and
      lp: "member_emails_loop client rest (case x of None \<Rightarrow> acc | Some m \<Rightarrow> insert m acc) s1
            = (r, s')"
      by blast
    from member_email_step_cached[OF assms st] Cons.IH[OF lp] show ?thesis
      by (rule cached_lookup_trans)
  qed
qed

lemma member_emails_loop_truthy:
  "member_emails_loop client ids acc s = (r, s') \<Longrightarrow> truthy (known_email s uid) \<Longrightarrow>
   known_email s' uid = known_email s uid"
proof (induction ids arbitrary: acc s)
  case Nil
  then show ?case by simp
next
  case (Cons member_id rest)
  from member_emails_loop_Cons[OF Cons.prems(1)] show ?case
  proof
    assume "\<exists>e. member_email_step client member_id s = (Inl e, s') \<and> r = Inl e"
    then show ?thesis using member_email_step_truthy Cons.prems(2) by blast
  next
    assume "\<exists>x s1. member_email_step client member_id s = (Inr x, s1)
        \<and> member_emails_loop client rest (case x of None \<Rightarrow> acc | Some m \<Rightarrow> insert m acc) s1
            = (r, s')"
    then obtain x s1 where
      st: "member_email_step client member_id s = (Inr x, s1)" and
      lp: "member_emails_loop client rest (case x of None \<Rightarrow> acc | Some m \<Rightarrow> insert m acc) s1
            = (r, s')"
      by blast
    from member_email_step_truthy[OF st Cons.prems(2)]
    have k: "known_email s1 uid = known_email s uid" .
    with Cons.prems(2) have "truthy (known_email s1 uid)" by simp
    from Cons.IH[OF lp this] k show ?thesis by simp
  qed
qed

lemma member_emails_loop_unresolved:
  assumes "users_info_email client uid = Inr y" and "\<not> truthy y"
  shows "member_emails_loop client ids acc s = (Inr emails, s') \<Longrightarrow>
         \<not> truthy (known_email s uid) \<Longrightarrow>
         lookups uid s' = lookups uid s + count_list ids uid
         \<and> known_email s' uid = known_email s uid"
proof (induction ids arbitrary: acc s)
  case Nil
  then show ?case by simp
next
  case (Cons member_id rest)
  from member_emails_loop_Cons[OF Cons.prems(1)] obtain x s1 where
      st: "member_email_step client member_id s = (Inr x, s1)" and
      lp: "member_emails_loop client rest (case x of None \<Rightarrow> acc | Some m \<Rightarrow> insert m acc) s1
            = (Inr emails, s')"
    by blast
  show ?case
  proof (cases "member_id = uid")
    case False
    from member_email_step_other[OF st False]
    have k: "lookups uid s1 = lookups uid s" "known_email s1 uid = known_email s uid" by simp_all
    with Cons.prems(2) have "\<not> truthy (known_email s1 uid)" by simp
    from Cons.IH[OF lp this] k False show ?thesis by simp
  next
    case True
    from member_email_step_cases[OF st] True assms Cons.prems(2)
    have s1: "s1 = s\<lparr>api_calls := api_calls s @ [UsersInfo uid]\<rparr>" by auto
    then have k: "lookups uid s1 = lookups uid s + 1" "known_email s1 uid = known_email s uid"
      by simp_all
    with Cons.prems(2) have "\<not> truthy (known_email s1 uid)" by simp
    from Cons.IH[OF lp this] k True show ?thesis by simp
  qed
qed

lemma member_emails_loop_resolved:
  assumes "users_info_email client uid = Inr (Some e)" and "e \<noteq> []"
  shows "member_emails_loop client ids acc s = (Inr emails, s') \<Longrightarrow>
         uid \<in> set ids \<Longrightarrow> \<not> truthy (known_email s uid) \<Longrightarrow>
         lookups uid s' = lookups uid s + 1 \<and> known_email s' uid = Some e"
proof (induction ids arbitrary: acc s)
  case Nil
  then show ?case by simp
next
  case (Cons member_id rest)
  from member_emails_loop_Cons[OF Cons.prems(1)] obtain x s1 where
      st: "member_email_step client member_id s = (Inr x, s1)" and
      lp: "member_emails_loop client rest (case x of None \<Rightarrow> acc | Some m \<Rightarrow> insert m acc) s1
            = (Inr emails, s')"
    by blast
  show ?case
  proof (cases "member_id = uid")
    case False
    from member_email_step_other[OF st False]
    have k: "lookups uid s1 = lookups uid s" "known_email s1 uid = known_email s uid" by simp_all
    with Cons.prems(3) have n: "\<not> truthy (known_email s1 uid)" by simp
    from Cons.prems(2) False have "uid \<in> set rest" by simp
    from Cons.IH[OF lp this n] k show ?thesis by simp
  next
    case True
    from member_email_step_cases[OF st] True assms Cons.prems(3)
    have s1: "s1 = s\<lparr>api_calls := api_calls s @ [UsersInfo uid],
                      user_id_to_email_map := AList.update uid e (user_id_to_email_map s)\<rparr>"
      by auto
    then have k: "lookups uid s1 = lookups uid s + 1" "known_email s1 uid = Some e"
      by (simp_all add: update_conv')
    with assms(2) have t: "truthy (known_email s1 uid)" by simp
    from member_emails_loop_cached[OF assms lp] t k show ?thesis
      by (simp add: cached_lookup_def)
  qed
qed

lemma member_emails_loop_emails:
  "member_emails_loop client ids acc s = (Inr emails, s') \<Longrightarrow>
   emails = acc \<union> {e. \<exists>uid\<in>set ids. known_email s' uid = Some e \<and> e \<noteq> []}"
proof (induction ids arbitrary: acc s)
  case Nil
  then show ?case by simp
next
  case (Cons member_id rest)
  from member_emails_loop_Cons[OF Cons.prems(1)] obtain x s1 where
      st: "member_email_step client member_id s = (Inr x, s1)" and
      lp: "member_emails_loop client rest (case x of None \<Rightarrow> acc | Some m \<Rightarrow> insert m acc) s1
            = (Inr emails, s')"
    by blast
  note ih = Cons.IH[OF lp]
  show ?case
  proof (cases x)
    case (Some m)
    with member_email_step_cases[OF st]
    have "truthy (known_email s1 member_id) \<and> known_email s1 member_id = Some m"
      by (auto simp: update_conv')
    then have "known_email s1 member_id = Some m \<and> m \<noteq> []"
      by auto
    with member_emails_loop_truthy[OF lp, of member_id]
    have "known_email s' member_id = Some m \<and> m \<noteq> []" by simp
    with ih Some show ?thesis by auto
  next
    case None
    with member_email_step_cases[OF st]
    obtain y where y: "users_info_email client member_id = Inr y" "\<not> truthy y"
      and n: "\<not> truthy (known_email s member_id)"
      and s1: "s1 = s\<lparr>api_calls := api_calls s @ [UsersInfo member_id]\<rparr>"
      by (cases "known_email s member_id") auto
    from n s1 have "\<not> truthy (known_email s1 member_id)" by simp
    from member_emails_loop_unresolved[OF y lp this] s1 n
    have "\<not> truthy (known_email s' member_id)" by simp
    then have "{e. known_email s' member_id = Some e \<and> e \<noteq> []} = {}"
      by (cases "known_email s' member_id") auto
    with ih None show ?thesis by auto
  qed
qed

lemma paginated_call_lookups:
  assumes "paginated_call (conversations_members_call client channel_id) cursor pages calls
             = Some (r, calls1)"
  shows "count_list calls1 (UsersInfo uid) = count_list calls (UsersInfo uid)"
proof -
  have "conversations_members_call client channel_id
          = conversations_members_call client channel_id
        \<longrightarrow> count_list (snd (r, calls1)) (UsersInfo uid) = count_list calls (UsersInfo uid)"
  proof (rule paginated_call.raw_induct
           [where P = "\<lambda>call cursor pages calls y.
                         call = conversations_members_call client channel_id
                         \<longrightarrow> count_list (snd y) (UsersInfo uid) = count_list calls (UsersInfo uid)",
            OF _ assms])
    fix f call cursor pages calls y
    assume ih: "\<And>call cursor pages calls y.
                  f call cursor pages calls = Some y \<Longrightarrow>
                  call = conversations_members_call client channel_id
                  \<longrightarrow> count_list (snd y) (UsersInfo uid) = count_list calls (UsersInfo uid)"
       and body: "(case call cursor calls of
                     (Inl e, calls1) \<Rightarrow> Some (Inl e, calls1)
                   | (Inr response, calls1) \<Rightarrow>
                       (case validate response of
                          Inl e \<Rightarrow> Some (Inl e, calls1)
                        | Inr page \<Rightarrow>
                            if truthy (next_cursor response)
                            then f call (next_cursor response) (pages @ [page]) calls1
                            else Some (Inr (pages @ [page]), calls1))) = Some y"
    show "call = conversations_members_call client channel_id
          \<longrightarrow> count_list (snd y) (UsersInfo uid) = count_list calls (UsersInfo uid)"
    proof
      assume call: "call = conversations_members_call client channel_id"
      obtain res calls2 where c: "call cursor calls = (res, calls2)"
        by (cases "call cursor calls")
      with call have c2: "count_list calls2 (UsersInfo uid) = count_list calls (UsersInfo uid)"
        by (auto simp: conversations_members_call_def)
      show "count_list (snd y) (UsersInfo uid) = count_list calls (UsersInfo uid)"
      proof (cases res)
        case (Inl e)
        with body c c2 show ?thesis by auto
      next
        case (Inr response)
        show ?thesis
        proof (cases "validate response")
          case vl: (Inl e)
          with body c c2 Inr show ?thesis by auto
        next
          case vr: (Inr page)
          show ?thesis
          proof (cases "truthy (next_cursor response)")
            case True
            with body c Inr vr
            have "f call (next_cursor response) (pages @ [page]) calls2 = Some y" by simp
            from ih[OF this] call c2 show ?thesis by simp
          next
            case False
            with body c c2 Inr vr show ?thesis by auto
          qed
        qed
      qed
    qed
  qed
  then show ?thesis by simp
qed

lemma private_channels_loop_step:
  "private_channels_loop client (channel_id # rest) perms s = Some (r, s') \<Longrightarrow>
   \<exists>res calls1.
      make_paginated_slack_api_call (conversations_members_call client channel_id) (api_calls s)
        = Some (res, calls1)
      \<and> ((\<exists>e. res = Inl e \<and> s' = s\<lparr>api_calls := calls1\<rparr>)
         \<or> (\<exists>pages res2 s2. res = Inr pages
               \<and> member_emails_loop client (member_ids_of_pages pages) {} (s\<lparr>api_calls := calls1\<rparr>)
                   = (res2, s2)
               \<and> ((\<exists>e. res2 = Inl e \<and> s' = s2)
                  \<or> (\<exists>member_emails. res2 = Inr member_emails
                       \<and> private_channels_loop client rest
                            (AList.update channel_id
                               \<lparr>external_user_emails = member_emails,
                                external_user_group_ids = {}, is_public = False\<rparr> perms) s2
                           = Some (r, s')))))"
  by (auto split: option.splits prod.splits sum.splits)

lemma private_channels_loop_cached:
  assumes "users_info_email client uid = Inr (Some e)" and "e \<noteq> []"
  shows "private_channels_loop client ids perms s = Some (r, s') \<Longrightarrow> cached_lookup uid s s'"
proof (induction ids arbitrary: perms s)
  case Nil
  then show ?case by (simp add: cached_lookup_refl)
next
  case (Cons channel_id rest)
  from private_channels_loop_step[OF Cons.prems] obtain res calls1 where
    pg: "make_paginated_slack_api_call (conversations_members_call client channel_id) (api_calls s)
           = Some (res, calls1)" and
    cs: "(\<exists>e. res = Inl e \<and> s' = s\<lparr>api_calls := calls1\<rparr>)
         \<or> (\<exists>pages res2 s2. res = Inr pages
               \<and> member_emails_loop client (member_ids_of_pages pages) {} (s\<lparr>api_calls := calls1\<rparr>)
                   = (res2, s2)
               \<and> ((\<exists>e. res2 = Inl e \<and> s' = s2)
                  \<or> (\<exists>member_emails. res2 = Inr member_emails
                       \<and> private_channels_loop client rest
                            (AList.update channel_id
                               \<lparr>external_user_emails = member_emails,
                                external_user_group_ids = {}, is_public = False\<rparr> perms) s2
                           = Some (r, s'))))"
    by blast
  from pg have "count_list calls1 (UsersInfo uid) = lookups uid s"
    unfolding make_paginated_slack_api_call_def by (rule paginated_call_lookups)
  then have a: "cached_lookup uid s (s\<lparr>api_calls := calls1\<rparr>)"
    by (rule cached_lookup_calls)
  from cs show ?case
  proof
    assume "\<exists>e. res = Inl e \<and> s' = s\<lparr>api_calls := calls1\<rparr>"
    with a show ?thesis by blast
  next
    assume "\<exists>pages res2 s2. res = Inr pages
               \<and> member_emails_loop client (member_ids_of_pages pages) {} (s\<lparr>api_calls := calls1\<rparr>)
                   = (res2, s2)
               \<and> ((\<exists>e. res2 = Inl e \<and> s' = s2)
                  \<or> (\<exists>member_emails. res2 = Inr member_emails
                       \<and> private_channels_loop client rest
                            (AList.update channel_id
                               \<lparr>external_user_emails = member_emails,
                                external_user_group_ids = {}, is_public = False\<rparr> perms) s2
                           = Some (r, s')))"
    then obtain pages res2 s2 where
      ml: "member_emails_loop client (member_ids_of_pages pages) {} (s\<lparr>api_calls := calls1\<rparr>)
             = (res2, s2)" and
      cs2: "(\<exists>e. res2 = Inl e \<and> s' = s2)
            \<or> (\<exists>member_emails. res2 = Inr member_emails
                 \<and> private_channels_loop client rest
                      (AList.update channel_id
                         \<lparr>external_user_emails = member_emails,
                          external_user_group_ids = {}, is_public = False\<rparr> perms) s2
                     = Some (r, s'))"
      by blast
    from a member_emails_loop_cached[OF assms ml] have b: "cached_lookup uid s s2"
      by (rule cached_lookup_trans)
    from cs2 show ?thesis
    proof
      assume "\<exists>e. res2 = Inl e \<and> s' = s2"
      with b show ?thesis by blast
    next
      assume "\<exists>member_emails. res2 = Inr member_emails
                 \<and> private_channels_loop client rest
                      (AList.update channel_id
                         \<lparr>external_user_emails = member_emails,
                          external_user_group_ids = {}, is_public = False\<rparr> perms) s2
                     = Some (r, s')"
      then obtain member_emails where
        "private_channels_loop client rest
                      (AList.update channel_id
                         \<lparr>external_user_emails = member_emails,
                          external_user_group_ids = {}, is_public = False\<rparr> perms) s2
                     = Some (r, s')"
        by blast
      from b Cons.IH[OF this] show ?thesis by (rule cached_lookup_trans)
    qed
  qed
qed

lemma get_channels_call_cached:
  "get_channels_call client get_public get_private s = (r, s1) \<Longrightarrow> cached_lookup uid s s1"
  by (auto simp: get_channels_call_def cached_lookup_def)

lemma fetch_channel_permissions_cached:
  assumes "users_info_email client uid = Inr (Some e)" and "e \<noteq> []"
      and "fetch_channel_permissions client ws s = Some (r, s')"
  shows "cached_lookup uid s s'"
proof -
  obtain r1 s1 where g1: "get_channels_call client True False s = (r1, s1)"
    by (cases "get_channels_call client True False s")
  obtain r2 s2 where g2: "get_channels_call client False True s1 = (r2, s2)"
    by (cases "get_channels_call client False True s1")
  note c1 = get_channels_call_cached[OF g1, of uid]
  note c2 = cached_lookup_trans[OF c1 get_channels_call_cached[OF g2, of uid]]
  show ?thesis
  proof (cases r1)
    case (Inl e1)
    with assms(3) g1 c1 show ?thesis by (simp add: fetch_channel_permissions_def)
  next
    case pub: (Inr public_channels)
    show ?thesis
    proof (cases r2)
      case (Inl e2)
      with assms(3) g1 g2 pub c2 show ?thesis by (simp add: fetch_channel_permissions_def)
    next
      case (Inr private_channels)
      with assms(3) g1 g2 pub
      have "private_channels_loop client (channel_ids private_channels)
              (public_channels_loop (channel_ids public_channels) ws []) s2 = Some (r, s')"
        by (simp add: fetch_channel_permissions_def)
      from c2 private_channels_loop_cached[OF assms(1,2) this] show ?thesis
        by (rule cached_lookup_trans)
    qed
  qed
qed

lemma member_emails_loop_known:
  "member_emails_loop client ids acc s = (r, s') \<Longrightarrow> truthy (known_email s uid) \<Longrightarrow>
   lookups uid s' = lookups uid s"
proof (induction ids arbitrary: acc s)
  case Nil
  then show ?case by simp
next
  case (Cons member_id rest)
  have step: "\<And>r1 s1. member_email_step client member_id s = (r1, s1) \<Longrightarrow>
                lookups uid s1 = lookups uid s \<and> truthy (known_email s1 uid)"
  proof -
    fix r1 s1 assume st: "member_email_step client member_id s = (r1, s1)"
    show "lookups uid s1 = lookups uid s \<and> truthy (known_email s1 uid)"
    proof (cases "member_id = uid")
      case True
      with st Cons.prems(2) show ?thesis by (simp add: member_email_step_def)
    next
      case False
      from member_email_step_other[OF st False] Cons.prems(2) show ?thesis by simp
    qed
  qed
  from member_emails_loop_Cons[OF Cons.prems(1)] show ?case
  proof
    assume "\<exists>e. member_email_step client member_id s = (Inl e, s') \<and> r = Inl e"
    then show ?thesis using step by blast
  next
    assume "\<exists>x s1. member_email_step client member_id s = (Inr x, s1)
        \<and> member_emails_loop client rest (case x of None \<Rightarrow> acc | Some m \<Rightarrow> insert m acc) s1
            = (r, s')"
    then obtain x s1 where
      st: "member_email_step client member_id s = (Inr x, s1)" and
      lp: "member_emails_loop client rest (case x of None \<Rightarrow> acc | Some m \<Rightarrow> insert m acc) s1
            = (r, s')"
      by blast
    from step[OF st] Cons.IH[OF lp] show ?thesis by simp
  qed
qed

lemma example_member_emails_loop:
  "member_emails_loop example_client example_member_ids {} example_state =
     (Inr {''u1@ext.com'', ''u2@example.com''},
      \<lparr>user_id_to_email_map = [(''U2'', ''u2@example.com''), (''U1'', ''u1@ext.com'')],
       api_calls = [FetchUserIdToEmailMap, UsersInfo ''U1'', UsersInfo ''B1'', UsersInfo ''B1'']\<rparr>)"
  by code_simp

lemma example_users_info_email:
  "users_info_email example_client ''U1'' = Inr (Some ''u1@ext.com'')"
  "users_info_email example_client ''B1'' = Inr None"
  by (simp_all add: users_info_email_def example_client_def example_profile_def)

lemma member_email_step_mono:
  "member_email_step client member_id s = (r, s1) \<Longrightarrow> lookups uid s \<le> lookups uid s1"
  by (auto simp: member_email_step_def Let_def split: if_splits sum.splits)

lemma member_emails_loop_mono:
  "member_emails_loop client ids acc s = (r, s') \<Longrightarrow> lookups uid s \<le> lookups uid s'"
proof (induction ids arbitrary: acc s)
  case Nil
  then show ?case by simp
next
  case (Cons member_id rest)
  from member_emails_loop_Cons[OF Cons.prems] show ?case
  proof
    assume "\<exists>e. member_email_step client member_id s = (Inl e, s') \<and> r = Inl e"
    then show ?thesis using member_email_step_mono by blast
  next
    assume "\<exists>x s1. member_email_step client member_id s = (Inr x, s1)
        \<and> member_emails_loop client rest (case x of None \<Rightarrow> acc | Some m \<Rightarrow> insert m acc) s1
            = (r, s')"
    then obtain x s1 where
      st: "member_email_step client member_id s = (Inr x, s1)" and
      lp: "member_emails_loop client rest (case x of None \<Rightarrow> acc | Some m \<Rightarrow> insert m acc) s1
            = (r, s')"
      by blast
    from member_email_step_mono[OF st, of uid] Cons.IH[OF lp] show ?thesis
      by (rule le_trans)
  qed
qed

lemma member_emails_loop_looked_up:
  "member_emails_loop client ids acc s = (Inr emails, s') \<Longrightarrow>
   uid \<in> set ids \<Longrightarrow> \<not> truthy (known_email s uid) \<Longrightarrow>
   (\<exists>y. users_info_email client uid = Inr y) \<and> lookups uid s < lookups uid s'"
proof (induction ids arbitrary: acc s)
  case Nil
  then show ?case by simp
next
  case (Cons member_id rest)
  from member_emails_loop_Cons[OF Cons.prems(1)] obtain x s1 where
      st: "member_email_step client member_id s = (Inr x, s1)" and
      lp: "member_emails_loop client rest (case x of None \<Rightarrow> acc | Some m \<Rightarrow> insert m acc) s1
            = (Inr emails, s')"
    by blast
  show ?case
  proof (cases "member_id = uid")
    case False
    from member_email_step_other[OF st False]
    have k: "lookups uid s1 = lookups uid s" "known_email s1 uid = known_email s uid" by simp_all
    with Cons.prems(3) have n: "\<not> truthy (known_email s1 uid)" by simp
    from Cons.prems(2) False have "uid \<in> set rest" by simp
    from Cons.IH[OF lp this n] k show ?thesis by simp
  next
    case True
    from member_email_step_cases[OF st] True Cons.prems(3)
    have y: "\<exists>y. users_info_email client uid = Inr y"
      and c: "lookups uid s1 = lookups uid s + 1"
      by auto
    from member_emails_loop_mono[OF lp, of uid] c have "lookups uid s < lookups uid s'" by simp
    with y show ?thesis by simp
  qed
qed

text \<open>
  C7, as the claim is worded: an unknown member is not looked up at most once.  The bot
  \<open>B1\<close> has no email and is a member of both private channels; it is absent from the map
  before and after the run and \<open>users_info\<close> is asked about it twice.
\<close>

theorem member_lookup_repeated_counterexample:
  "\<exists>channel_permissions s'.
      fetch_channel_permissions example_client
        (fetch_workspace_permissions [(''U2'', ''u2@example.com'')]) example_state
        = Some (Inr channel_permissions, s')
      \<and> map_of (user_id_to_email_map example_state) ''B1'' = None
      \<and> count_list (api_calls example_state) (UsersInfo ''B1'') = 0
      \<and> count_list (api_calls s') (UsersInfo ''B1'') = 2
      \<and> map_of (user_id_to_email_map s') ''B1'' = None"
  by (simp add: example_fetch_channel_permissions) (simp add: example_state_def)

text \<open>
  C7, amended.  When the loop over the members of a private channel ends normally: the
  email set of the channel consists of the non-empty emails that the map holds for the
  members afterwards; a member with an email in the map causes no request; a member
  without one whose lookup yields a non-empty email is looked up exactly once, cached and
  included; a user whose lookup yields no email is left out of the map (so it contributes no
  email) and is looked up once for each of its occurrences; so every member without an
  email in the map is looked up.  Across a whole call of
  \<open>_fetch_channel_permissions\<close>, a user whose lookup yields a non-empty email is looked up at
  most once.
\<close>

theorem private_channel_member_resolution:
  "(member_emails_loop client member_ids {} s = (Inr member_emails, s') \<longrightarrow>
      member_emails
        = {e. \<exists>member_id\<in>set member_ids. known_email s' member_id = Some e \<and> e \<noteq> []}
      \<and> (\<forall>uid. truthy (known_email s uid)
            \<longrightarrow> lookups uid s' = lookups uid s \<and> known_email s' uid = known_email s uid)
      \<and> (\<forall>uid e. uid \<in> set member_ids \<and> \<not> truthy (known_email s uid)
                  \<and> users_info_email client uid = Inr (Some e) \<and> e \<noteq> []
            \<longrightarrow> lookups uid s' = lookups uid s + 1 \<and> known_email s' uid = Some e
                \<and> e \<in> member_emails)
      \<and> (\<forall>uid y. \<not> truthy (known_email s uid)
                  \<and> users_info_email client uid = Inr y \<and> \<not> truthy y
            \<longrightarrow> lookups uid s' = lookups uid s + count_list member_ids uid
                \<and> known_email s' uid = known_email s uid)
      \<and> (\<forall>uid. uid \<in> set member_ids \<and> \<not> truthy (known_email s uid)
            \<longrightarrow> (\<exists>y. users_info_email client uid = Inr y)
                \<and> lookups uid s < lookups uid s'))
   \<and> (fetch_channel_permissions client workspace_permissions s0 = Some (r, s1)
        \<and> users_info_email client uid0 = Inr (Some e0) \<and> e0 \<noteq> []
      \<longrightarrow> lookups uid0 s1 \<le> lookups uid0 s0 + 1)"
proof (intro conjI impI allI)
  assume lp: "member_emails_loop client member_ids {} s = (Inr member_emails, s')"
  from member_emails_loop_emails[OF lp]
  show em: "member_emails
        = {e. \<exists>member_id\<in>set member_ids. known_email s' member_id = Some e \<and> e \<noteq> []}"
    by simp
  {
    fix uid assume t: "truthy (known_email s uid)"
    from member_emails_loop_known[OF lp t] show "lookups uid s' = lookups uid s" .
    from member_emails_loop_truthy[OF lp t] show "known_email s' uid = known_email s uid" .
  }
  {
    fix uid e
    assume h: "uid \<in> set member_ids \<and> \<not> truthy (known_email s uid)
                  \<and> users_info_email client uid = Inr (Some e) \<and> e \<noteq> []"
    then have res: "lookups uid s' = lookups uid s + 1 \<and> known_email s' uid = Some e"
      using member_emails_loop_resolved[OF _ _ lp, of uid e] by blast
    from res show "lookups uid s' = lookups uid s + 1" by simp
    from res show "known_email s' uid = Some e" by simp
    from res h em show "e \<in> member_emails" by blast
  }
  {
    fix uid y
    assume h: "\<not> truthy (known_email s uid)
                  \<and> users_info_email client uid = Inr y \<and> \<not> truthy y"
    then have res: "lookups uid s' = lookups uid s + count_list member_ids uid
         \<and> known_email s' uid = known_email s uid"
      using member_emails_loop_unresolved[OF _ _ lp, of uid y] by blast
    from res show "lookups uid s' = lookups uid s + count_list member_ids uid" by simp
    from res show "known_email s' uid = known_email s uid" by simp
  }
  {
    fix uid
    assume h: "uid \<in> set member_ids \<and> \<not> truthy (known_email s uid)"
    then have res: "(\<exists>y. users_info_email client uid = Inr y) \<and> lookups uid s < lookups uid s'"
      using member_emails_loop_looked_up[OF lp, of uid] by blast
    from res show "\<exists>y. users_info_email client uid = Inr y" by simp
    from res show "lookups uid s < lookups uid s'" by simp
  }
next
  assume "fetch_channel_permissions client workspace_permissions s0 = Some (r, s1)
        \<and> users_info_email client uid0 = Inr (Some e0) \<and> e0 \<noteq> []"
  then have "cached_lookup uid0 s0 s1"
    using fetch_channel_permissions_cached by blast
  then show "lookups uid0 s1 \<le> lookups uid0 s0 + 1"
    by (simp add: cached_lookup_def)
qed

theorem private_channel_member_resolution_witness:
  "(\<exists>member_emails s'.
       member_emails_loop example_client example_member_ids {} example_state
         = (Inr member_emails, s')
       \<and> member_emails = {''u1@ext.com'', ''u2@example.com''}
       \<and> lookups ''U2'' s' = 0
       \<and> lookups ''U1'' s' = 1 \<and> known_email s' ''U1'' = Some ''u1@ext.com''
       \<and> lookups ''B1'' s' = 2 \<and> known_email s' ''B1'' = None)
   \<and> (\<exists>r s1.
       fetch_channel_permissions example_client
         (fetch_workspace_permissions [(''U2'', ''u2@example.com'')]) example_state = Some (r, s1)
       \<and> lookups ''U1'' s1 \<le> 1)"
proof -
  obtain member_emails s' where
    lp: "member_emails_loop example_client example_member_ids {} example_state
           = (Inr member_emails, s')" and
    em: "member_emails = {''u1@ext.com'', ''u2@example.com''}"
    using example_member_emails_loop by simp
  obtain r s1 where
    f: "fetch_channel_permissions example_client
         (fetch_workspace_permissions [(''U2'', ''u2@example.com'')]) example_state = Some (r, s1)"
    using example_fetch_channel_permissions by simp
  have st: "known_email example_state ''U2'' = Some ''u2@example.com''"
           "known_email example_state ''U1'' = None"
           "known_email example_state ''B1'' = None"
           "lookups ''U2'' example_state = 0"
           "lookups ''U1'' example_state = 0"
           "lookups ''B1'' example_state = 0"
    by (simp_all add: example_state_def)
  have ids: "''U1'' \<in> set example_member_ids" "count_list example_member_ids ''B1'' = 2"
    by (simp_all add: example_member_ids_def)
  note t = private_channel_member_resolution
             [of example_client example_member_ids example_state member_emails s'
                 "fetch_workspace_permissions [(''U2'', ''u2@example.com'')]" example_state r s1
                 "''U1''" "''u1@ext.com''"]
  note t1 = t[THEN conjunct1, rule_format, OF lp]
  from t1[THEN conjunct2, THEN conjunct1, rule_format, of "''U2''"] st
  have a: "lookups ''U2'' s' = 0" by simp
  from t1[THEN conjunct2, THEN conjunct2, THEN conjunct1, rule_format,
          of "''U1''" "''u1@ext.com''"] st ids example_users_info_email
  have b: "lookups ''U1'' s' = 1 \<and> known_email s' ''U1'' = Some ''u1@ext.com''"
    by simp
  from t1[THEN conjunct2, THEN conjunct2, THEN conjunct2, THEN conjunct1, rule_format,
          of "''B1''" None]
       st ids example_users_info_email
  have c: "lookups ''B1'' s' = 2 \<and> known_email s' ''B1'' = None"
    by simp
  from t[THEN conjunct2] f st example_users_info_email
  have d: "lookups ''U1'' s1 \<le> 1" by simp
  from lp em a b c have
    "member_emails_loop example_client example_member_ids {} example_state
         = (Inr member_emails, s')
       \<and> member_emails = {''u1@ext.com'', ''u2@example.com''}
       \<and> lookups ''U2'' s' = 0
       \<and> lookups ''U1'' s' = 1 \<and> known_email s' ''U1'' = Some ''u1@ext.com''
       \<and> lookups ''B1'' s' = 2 \<and> known_email s' ''B1'' = None"
    by simp
  then have loop: "\<exists>member_emails s'.
       member_emails_loop example_client example_member_ids {} example_state
         = (Inr member_emails, s')
       \<and> member_emails = {''u1@ext.com'', ''u2@example.com''}
       \<and> lookups ''U2'' s' = 0
       \<and> lookups ''U1'' s' = 1 \<and> known_email s' ''U1'' = Some ''u1@ext.com''
       \<and> lookups ''B1'' s' = 2 \<and> known_email s' ''B1'' = None"
    by (intro exI)
  from f d have
    "fetch_channel_permissions example_client
         (fetch_workspace_permissions [(''U2'', ''u2@example.com'')]) example_state = Some (r, s1)
       \<and> lookups ''U1'' s1 \<le> 1"
    by simp
  then have run: "\<exists>r s1.
       fetch_channel_permissions example_client
         (fetch_workspace_permissions [(''U2'', ''u2@example.com'')]) example_state = Some (r, s1)
       \<and> lookups ''U1'' s1 \<le> 1"
    by (intro exI)
  from loop run show ?thesis by (rule conjI)
qed

end
